theory Spec2Isabelle
  imports Main "HOL-Library.Word"
begin

section \<open>The CLAP shim \<^verbatim>\<open>src/plugin/shim/clap_entry.c\<close>\<close>

text \<open>
  The shim is a C file that implements the CLAP plugin tables and forwards the
  plugin lifecycle to an embedded OCaml runtime. Its functions are embedded below as
  functions on an explicit program state \<open>shim_state\<close>. That state holds
  \<^item> the table of OCaml named values that \<^verbatim>\<open>caml_named_value\<close> consults;
  \<^item> the five function-local \<^verbatim>\<open>static const value *\<close> caches;
  \<^item> the C heap, one typed store per struct type, indexed by addresses;
  \<^item> a trace of every action that leaves the shim: a call into the runtime, a
    registration or removal of a global root, an allocation, a release.

  An operation returns \<open>Inr (result, state')\<close> when the C function returns to the
  host, and \<open>Inl fault\<close> when it does not: where C leaves the behaviour undefined (a
  read or write through a pointer to an object that is not allocated (any more), or
  \<^verbatim>\<open>free\<close> of such a pointer), and where an OCaml exception escapes from a callback.
\<close>

subsection \<open>Data\<close>

record clap_version =
  major :: "32 word"
  minor :: "32 word"
  revision :: "32 word"

definition CLAP_VERSION :: clap_version where
  "CLAP_VERSION = \<lparr>major = 1, minor = 2, revision = 0\<rparr>"

text \<open>
  A \<^verbatim>\<open>const char *\<close> is modelled by the characters before its terminating NUL, the
  NULL-terminated array \<^verbatim>\<open>features\<close> by the list of its entries. The field \<^verbatim>\<open>id\<close>
  is called \<open>desc_id\<close>, since \<open>id\<close> is the identity function of HOL.
\<close>

record clap_plugin_descriptor =
  desc_clap_version :: clap_version
  desc_id :: string
  name :: string
  vendor :: string
  url :: string
  manual_url :: string
  support_url :: string
  version :: string
  description :: string
  features :: "string list"

definition s_descriptor :: clap_plugin_descriptor where
  "s_descriptor =
     \<lparr>desc_clap_version = CLAP_VERSION,
      desc_id = ''com.dancer.daw-bridge'',
      name = ''DAW Bridge'',
      vendor = ''Dancer'',
      url = ''https://github.com/dancer/me'',
      manual_url = '''',
      support_url = '''',
      version = ''1.0.0'',
      description = ''MCP Bridge for AI control of DAW'',
      features = [''utility'', ''analyzer'']\<rparr>"

type_synonym addr = nat

text \<open>The host pointer is opaque to the shim: it is stored and never followed.\<close>

type_synonym host_ref = nat

text \<open>The \<^verbatim>\<open>double\<close> sample rate is carried as its 64 bits: it is copied, never computed with.\<close>

type_synonym double = "64 word"

text \<open>
  An OCaml \<^verbatim>\<open>value\<close> is a machine word (an immediate, or a pointer to a block of the
  OCaml heap); the one block the shim builds itself is the boxed float of
  \<^verbatim>\<open>caml_copy_double\<close>, which is kept symbolic. The model is of a 64-bit platform.
\<close>

datatype mlvalue = Word "64 word" | Boxed_double double

text \<open>
  The macros of \<^verbatim>\<open>caml/mlvalues.h\<close> that the shim uses: \<^verbatim>\<open>Val_unit\<close> is
  \<^verbatim>\<open>Val_long(0)\<close>, and \<^verbatim>\<open>Val_int(x)\<close> is \<^verbatim>\<open>((intnat)((uintnat)(x) << 1)) + 1\<close>.
  \<open>Int_val\<close> is the reading of such a word on the OCaml side (an arithmetic shift).
\<close>

definition Val_int :: "32 word \<Rightarrow> mlvalue" where
  "Val_int x = Word (push_bit 1 (ucast x) + 1)"

definition Val_unit :: mlvalue where
  "Val_unit = Word 1"

fun Int_val :: "mlvalue \<Rightarrow> int option" where
  "Int_val (Word w) = (if bit w 0 then Some (sint (signed_drop_bit 1 w)) else None)"
| "Int_val (Boxed_double d) = None"

definition caml_copy_double :: "double \<Rightarrow> mlvalue" where
  "caml_copy_double d = Boxed_double d"

text \<open>The entries of the function tables; a function pointer is modelled by the function's name.\<close>

datatype plugin_fn =
    Fn_plugin_init | Fn_plugin_destroy | Fn_plugin_activate | Fn_plugin_deactivate
  | Fn_plugin_start_processing | Fn_plugin_stop_processing | Fn_plugin_reset
  | Fn_plugin_process | Fn_plugin_get_extension | Fn_plugin_on_main_thread

record clap_plugin =
  desc :: clap_plugin_descriptor
  plugin_data :: addr
  init :: plugin_fn
  destroy :: plugin_fn
  activate :: plugin_fn
  deactivate :: plugin_fn
  start_processing :: plugin_fn
  stop_processing :: plugin_fn
  reset :: plugin_fn
  process :: plugin_fn
  get_extension :: plugin_fn
  on_main_thread :: plugin_fn

datatype factory_fn =
  Fn_factory_get_plugin_count | Fn_factory_get_plugin_descriptor | Fn_factory_create_plugin

record clap_plugin_factory =
  get_plugin_count :: factory_fn
  get_plugin_descriptor :: factory_fn
  create_plugin :: factory_fn

definition s_factory :: clap_plugin_factory where
  "s_factory =
     \<lparr>get_plugin_count = Fn_factory_get_plugin_count,
      get_plugin_descriptor = Fn_factory_get_plugin_descriptor,
      create_plugin = Fn_factory_create_plugin\<rparr>"

record daw_bridge_state =
  ocaml_plugin :: mlvalue
  host :: host_ref

subsection \<open>Program state, trace and faults\<close>

datatype event =
    Callback mlvalue "mlvalue list"
  | Register_global_root addr
  | Remove_global_root addr
  | Calloc addr
  | Free addr

text \<open>
  What the OCaml function behind a callback does: it returns a value, or it raises an
  exception (carried here by the exception value).
\<close>

datatype ml_outcome = Returns mlvalue | Raises mlvalue

datatype fault = Invalid_deref addr | Invalid_free addr | Uncaught_exception mlvalue

text \<open>
  \<open>named_values\<close> is the runtime's table behind \<^verbatim>\<open>caml_named_value\<close>; a pointer to
  an entry is modelled by the closure stored there, \<open>None\<close> is \<^verbatim>\<open>NULL\<close>.
  \<open>ml_result\<close> stands for the OCaml code: it gives the outcome of a callback, as a
  function of everything that has happened so far, the call included.
  \<open>plugins\<close> and \<open>states\<close> are the live \<^verbatim>\<open>clap_plugin_t\<close> and
  \<^verbatim>\<open>daw_bridge_state_t\<close> objects; \<open>next_addr\<close> is the next address \<^verbatim>\<open>calloc\<close>
  hands out. Allocation always succeeds and never reuses an address.
\<close>

record shim_state =
  named_values :: "string \<Rightarrow> mlvalue option"
  ml_result :: "event list \<Rightarrow> ml_outcome"
  ocaml_init :: "mlvalue option"
  ocaml_destroy :: "mlvalue option"
  ocaml_activate :: "mlvalue option"
  ocaml_deactivate :: "mlvalue option"
  ocaml_process :: "mlvalue option"
  plugins :: "addr \<Rightarrow> clap_plugin option"
  states :: "addr \<Rightarrow> daw_bridge_state option"
  next_addr :: addr
  trace :: "event list"

type_synonym 'a result = "fault + ('a \<times> shim_state)"

subsection \<open>The C library and the OCaml runtime, as far as the shim uses them\<close>

text \<open>\<^verbatim>\<open>strcmp\<close>: the sign of the first difference, bytes compared as unsigned.\<close>

fun strcmp :: "string \<Rightarrow> string \<Rightarrow> int" where
  "strcmp [] [] = 0"
| "strcmp [] (y # ys) = - 1"
| "strcmp (x # xs) [] = 1"
| "strcmp (x # xs) (y # ys) =
     (if x = y then strcmp xs ys
      else if (of_char x :: nat) < of_char y then - 1 else 1)"

text \<open>
  The pattern at the head of every bridging function:
  \<^verbatim>\<open>if (cache == NULL) cache = caml_named_value(name);\<close> gives the new cache.
\<close>

definition caml_named_value_cached :: "mlvalue option \<Rightarrow> string \<Rightarrow> shim_state \<Rightarrow> mlvalue option" where
  "caml_named_value_cached cache nm s =
     (case cache of None \<Rightarrow> named_values s nm | Some f \<Rightarrow> Some f)"

text \<open>
  \<^verbatim>\<open>caml_callbackN\<close> and \<^verbatim>\<open>caml_callback\<close> return the value the OCaml function
  returns. They do not catch an exception it raises (that is what the
  \<^verbatim>\<open>caml_callback_exn\<close> variants are for, which the shim never uses): the exception
  passes the C frames, and since the host's call has no OCaml frame below it, the
  runtime ends the process. The calling C function does not return then.
\<close>

definition caml_callbackN :: "mlvalue \<Rightarrow> mlvalue list \<Rightarrow> shim_state \<Rightarrow> mlvalue result" where
  "caml_callbackN f args s =
     (case ml_result s (trace s @ [Callback f args]) of
        Returns v \<Rightarrow> Inr (v, s\<lparr>trace := trace s @ [Callback f args]\<rparr>)
      | Raises e \<Rightarrow> Inl (Uncaught_exception e))"

definition caml_callback :: "mlvalue \<Rightarrow> mlvalue \<Rightarrow> shim_state \<Rightarrow> mlvalue result" where
  "caml_callback f arg s = caml_callbackN f [arg] s"

definition caml_register_global_root :: "addr \<Rightarrow> shim_state \<Rightarrow> shim_state" where
  "caml_register_global_root a s = s\<lparr>trace := trace s @ [Register_global_root a]\<rparr>"

definition caml_remove_global_root :: "addr \<Rightarrow> shim_state \<Rightarrow> shim_state" where
  "caml_remove_global_root a s = s\<lparr>trace := trace s @ [Remove_global_root a]\<rparr>"

definition free_state :: "addr \<Rightarrow> shim_state \<Rightarrow> unit result" where
  "free_state a s =
     (case states s a of
        None \<Rightarrow> Inl (Invalid_free a)
      | Some d \<Rightarrow> Inr ((), s\<lparr>states := (states s)(a := None), trace := trace s @ [Free a]\<rparr>))"

definition free_plugin :: "addr \<Rightarrow> shim_state \<Rightarrow> unit result" where
  "free_plugin a s =
     (case plugins s a of
        None \<Rightarrow> Inl (Invalid_free a)
      | Some p \<Rightarrow> Inr ((), s\<lparr>plugins := (plugins s)(a := None), trace := trace s @ [Free a]\<rparr>))"

definition calloc :: "shim_state \<Rightarrow> addr \<times> shim_state" where
  "calloc s = (next_addr s, s\<lparr>next_addr := Suc (next_addr s), trace := trace s @ [Calloc (next_addr s)]\<rparr>)"

subsection \<open>Plugin implementation\<close>

definition plugin_init :: "addr \<Rightarrow> shim_state \<Rightarrow> bool result" where
  "plugin_init plugin s =
     (case plugins s plugin of
        None \<Rightarrow> Inl (Invalid_deref plugin)
      | Some pl \<Rightarrow>
          (let state = plugin_data pl;
               s1 = s\<lparr>ocaml_init := caml_named_value_cached (ocaml_init s) ''daw_bridge_init'' s\<rparr>
           in case ocaml_init s1 of
                None \<Rightarrow> Inr (False, s1)
              | Some f \<Rightarrow>
                  (case caml_callback f Val_unit s1 of
                     Inl e \<Rightarrow> Inl e
                   | Inr (v, s2) \<Rightarrow>
                       (case states s2 state of
                          None \<Rightarrow> Inl (Invalid_deref state)
                        | Some d \<Rightarrow>
                            Inr (True,
                                 caml_register_global_root state
                                   (s2\<lparr>states := (states s2)(state \<mapsto> d\<lparr>ocaml_plugin := v\<rparr>)\<rparr>))))))"

definition plugin_destroy :: "addr \<Rightarrow> shim_state \<Rightarrow> unit result" where
  "plugin_destroy plugin s =
     (case plugins s plugin of
        None \<Rightarrow> Inl (Invalid_deref plugin)
      | Some pl \<Rightarrow>
          (let state = plugin_data pl;
               s1 = s\<lparr>ocaml_destroy := caml_named_value_cached (ocaml_destroy s) ''daw_bridge_destroy'' s\<rparr>;
               r = (case ocaml_destroy s1 of
                      None \<Rightarrow> Inr ((), s1)
                    | Some f \<Rightarrow>
                        (case states s1 state of
                           None \<Rightarrow> Inl (Invalid_deref state)
                         | Some d \<Rightarrow>
                             if ocaml_plugin d \<noteq> Val_unit
                             then (case caml_callback f (ocaml_plugin d) s1 of
                                     Inl e \<Rightarrow> Inl e
                                   | Inr (v, s2) \<Rightarrow> Inr ((), caml_remove_global_root state s2))
                             else Inr ((), s1)))
           in case r of
                Inl e \<Rightarrow> Inl e
              | Inr (u, s2) \<Rightarrow>
                  (case free_state state s2 of
                     Inl e \<Rightarrow> Inl e
                   | Inr (u, s3) \<Rightarrow> free_plugin plugin s3)))"

definition plugin_activate :: "addr \<Rightarrow> double \<Rightarrow> 32 word \<Rightarrow> 32 word \<Rightarrow> shim_state \<Rightarrow> bool result" where
  "plugin_activate plugin sample_rate min_frames max_frames s =
     (case plugins s plugin of
        None \<Rightarrow> Inl (Invalid_deref plugin)
      | Some pl \<Rightarrow>
          (let state = plugin_data pl;
               s1 = s\<lparr>ocaml_activate := caml_named_value_cached (ocaml_activate s) ''daw_bridge_activate'' s\<rparr>
           in case ocaml_activate s1 of
                None \<Rightarrow> Inr (False, s1)
              | Some f \<Rightarrow>
                  (case states s1 state of
                     None \<Rightarrow> Inl (Invalid_deref state)
                   | Some d \<Rightarrow>
                       (case caml_callbackN f
                               [ocaml_plugin d, caml_copy_double sample_rate, Val_int max_frames] s1 of
                          Inl e \<Rightarrow> Inl e
                        | Inr (v, s2) \<Rightarrow> Inr (True, s2)))))"

definition plugin_deactivate :: "addr \<Rightarrow> shim_state \<Rightarrow> unit result" where
  "plugin_deactivate plugin s =
     (case plugins s plugin of
        None \<Rightarrow> Inl (Invalid_deref plugin)
      | Some pl \<Rightarrow>
          (let state = plugin_data pl;
               s1 = s\<lparr>ocaml_deactivate := caml_named_value_cached (ocaml_deactivate s) ''daw_bridge_deactivate'' s\<rparr>
           in case ocaml_deactivate s1 of
                None \<Rightarrow> Inr ((), s1)
              | Some f \<Rightarrow>
                  (case states s1 state of
                     None \<Rightarrow> Inl (Invalid_deref state)
                   | Some d \<Rightarrow>
                       (case caml_callback f (ocaml_plugin d) s1 of
                          Inl e \<Rightarrow> Inl e
                        | Inr (v, s2) \<Rightarrow> Inr ((), s2)))))"



definition plugin_reset :: "addr \<Rightarrow> shim_state \<Rightarrow> unit result" where
  "plugin_reset plugin s = Inr ((), s)"

text \<open>
  The second argument is the \<^verbatim>\<open>void *process\<close> block. The function is polymorphic in
  it: the block is passed in and never inspected.
\<close>

definition plugin_process :: "addr \<Rightarrow> 'block \<Rightarrow> shim_state \<Rightarrow> int result" where
  "plugin_process plugin process_block s =
     (case plugins s plugin of
        None \<Rightarrow> Inl (Invalid_deref plugin)
      | Some pl \<Rightarrow>
          (let state = plugin_data pl;
               s1 = s\<lparr>ocaml_process := caml_named_value_cached (ocaml_process s) ''daw_bridge_process'' s\<rparr>
           in case ocaml_process s1 of
                None \<Rightarrow> Inr (0, s1)
              | Some f \<Rightarrow>
                  (case states s1 state of
                     None \<Rightarrow> Inl (Invalid_deref state)
                   | Some d \<Rightarrow>
                       (case caml_callback f (ocaml_plugin d) s1 of
                          Inl e \<Rightarrow> Inl e
                        | Inr (v, s2) \<Rightarrow> Inr (0, s2)))))"

text \<open>The result \<^verbatim>\<open>const void *\<close> is \<open>None\<close> for \<^verbatim>\<open>NULL\<close>; no extension table exists.\<close>

definition plugin_get_extension :: "addr \<Rightarrow> string \<Rightarrow> shim_state \<Rightarrow> unit option result" where
  "plugin_get_extension plugin ext_id s = Inr (None, s)"

definition plugin_on_main_thread :: "addr \<Rightarrow> shim_state \<Rightarrow> unit result" where
  "plugin_on_main_thread plugin s = Inr ((), s)"

subsection \<open>Factory and entry point\<close>

definition factory_get_plugin_count :: "'factory \<Rightarrow> 32 word" where
  "factory_get_plugin_count factory = 1"

definition factory_get_plugin_descriptor :: "'factory \<Rightarrow> 32 word \<Rightarrow> clap_plugin_descriptor option" where
  "factory_get_plugin_descriptor factory index = (if index = 0 then Some s_descriptor else None)"

definition factory_create_plugin :: "'factory \<Rightarrow> host_ref \<Rightarrow> string \<Rightarrow> shim_state \<Rightarrow> addr option result" where
  "factory_create_plugin factory hst plugin_id s =
     (if strcmp plugin_id (desc_id s_descriptor) \<noteq> 0 then Inr (None, s)
      else
        (case calloc s of
           (plugin, s1) \<Rightarrow>
             (case calloc s1 of
                (state, s2) \<Rightarrow>
                  Inr (Some plugin,
                       s2\<lparr>states := (states s2)(state \<mapsto> \<lparr>ocaml_plugin = Val_unit, host = hst\<rparr>),
                          plugins := (plugins s2)(plugin \<mapsto>
                            \<lparr>desc = s_descriptor,
                             plugin_data = state,
                             init = Fn_plugin_init,
                             destroy = Fn_plugin_destroy,
                             activate = Fn_plugin_activate,
                             deactivate = Fn_plugin_deactivate,
                             start_processing = Fn_plugin_start_processing,
                             stop_processing = Fn_plugin_stop_processing,
                             reset = Fn_plugin_reset,
                             process = Fn_plugin_process,
                             get_extension = Fn_plugin_get_extension,
                             on_main_thread = Fn_plugin_on_main_thread\<rparr>)\<rparr>))))"

definition entry_get_factory :: "string \<Rightarrow> clap_plugin_factory option" where
  "entry_get_factory factory_id =
     (if strcmp factory_id ''clap.plugin-factory'' = 0 then Some s_factory else None)"

subsection \<open>Sequencing, and what a run shows to the outside\<close>

text \<open>
  \<open>then_do r k\<close> is the host making the call \<open>k\<close> in the state that the run \<open>r\<close>
  has left; a fault ends the run. \<open>outcome\<close> keeps of a run what the host and the
  runtime see of it: the result and the trace.
\<close>

definition then_do :: "'a result \<Rightarrow> (shim_state \<Rightarrow> 'b result) \<Rightarrow> 'b result" where
  "then_do r k = (case r of Inl e \<Rightarrow> Inl e | Inr (x, s) \<Rightarrow> k s)"

definition outcome :: "'a result \<Rightarrow> fault + ('a \<times> event list)" where
  "outcome r = (case r of Inl e \<Rightarrow> Inl e | Inr (x, s) \<Rightarrow> Inr (x, trace s))"

text \<open>How often the field at an address was registered as a global root, and how often removed.\<close>

definition registrations :: "addr \<Rightarrow> event list \<Rightarrow> nat" where
  "registrations a tr = count_list tr (Register_global_root a)"

definition removals :: "addr \<Rightarrow> event list \<Rightarrow> nat" where
  "removals a tr = count_list tr (Remove_global_root a)"

fun event_addr :: "event \<Rightarrow> addr option" where
  "event_addr (Callback f args) = None"
| "event_addr (Register_global_root a) = Some a"
| "event_addr (Remove_global_root a) = Some a"
| "event_addr (Calloc a) = Some a"
| "event_addr (Free a) = Some a"

text \<open>
  The allocator's invariant: nothing lives at or beyond \<open>next_addr\<close>, no live plugin
  object points there, and the trace mentions no such address.
\<close>

definition heap_inv :: "shim_state \<Rightarrow> bool" where
  "heap_inv s \<longleftrightarrow>
     (\<forall>a. next_addr s \<le> a \<longrightarrow> plugins s a = None \<and> states s a = None) \<and>
     (\<forall>a pl. plugins s a = Some pl \<longrightarrow> plugin_data pl < next_addr s) \<and>
     (\<forall>e a. e \<in> set (trace s) \<longrightarrow> event_addr e = Some a \<longrightarrow> a < next_addr s)"

text \<open>
  \<open>call_returns s fo args\<close>: the call that the shim makes in state \<open>s\<close> to the entry
  point \<open>fo\<close> with the arguments \<open>args\<close> returns. An unresolved entry point is not
  called at all.
\<close>

definition call_returns :: "shim_state \<Rightarrow> mlvalue option \<Rightarrow> mlvalue list \<Rightarrow> bool" where
  "call_returns s fo args =
     (case fo of
        None \<Rightarrow> True
      | Some f \<Rightarrow>
          (case ml_result s (trace s @ [Callback f args]) of
             Returns v \<Rightarrow> True
           | Raises e \<Rightarrow> False))"

subsection \<open>A concrete module state\<close>

text \<open>
  The state of the freshly loaded module: every \<^verbatim>\<open>static\<close> cache is \<^verbatim>\<open>NULL\<close>
  and nothing is allocated. \<open>full_bridge\<close> is a runtime that has registered all five
  entry points, \<open>no_bridge\<close> one that has registered none; \<open>fresh_handles\<close> makes every
  callback return, with the pointer to a new block.
\<close>

definition boot :: "(string \<Rightarrow> mlvalue option) \<Rightarrow> (event list \<Rightarrow> ml_outcome) \<Rightarrow> shim_state" where
  "boot nv res =
     \<lparr>named_values = nv, ml_result = res,
      ocaml_init = None, ocaml_destroy = None, ocaml_activate = None,
      ocaml_deactivate = None, ocaml_process = None,
      plugins = (\<lambda>a. None), states = (\<lambda>a. None), next_addr = 16, trace = []\<rparr>"

definition full_bridge :: "string \<Rightarrow> mlvalue option" where
  "full_bridge nm =
     (if nm = ''daw_bridge_init'' then Some (Word 0x100)
      else if nm = ''daw_bridge_destroy'' then Some (Word 0x108)
      else if nm = ''daw_bridge_activate'' then Some (Word 0x110)
      else if nm = ''daw_bridge_deactivate'' then Some (Word 0x118)
      else if nm = ''daw_bridge_process'' then Some (Word 0x120)
      else None)"

definition no_bridge :: "string \<Rightarrow> mlvalue option" where
  "no_bridge nm = None"

definition fresh_handles :: "event list \<Rightarrow> ml_outcome" where
  "fresh_handles tr = Returns (Word (0x2000 + 8 * of_nat (length tr)))"

text \<open>
  \<open>failing_process\<close> is a runtime like \<open>fresh_handles\<close>, except that the function
  registered as \<^verbatim>\<open>daw_bridge_process\<close> by \<open>full_bridge\<close> raises an exception.
\<close>

definition failing_process :: "event list \<Rightarrow> ml_outcome" where
  "failing_process tr =
     (case rev tr of
        Callback f args # before \<Rightarrow>
          if f = Word 0x120 then Raises (Word 0x3000) else fresh_handles tr
      | _ \<Rightarrow> fresh_handles tr)"

text \<open>
  \<open>created nv res\<close> is the state after the host has created one instance for host pointer
  \<open>7\<close> in the freshly loaded module, \<open>initialized nv res\<close> the state after it has then
  called \<^verbatim>\<open>init\<close> on that instance. The instance is at address \<open>16\<close> and its
  plugin object is \<open>instance_16\<close>; its state block is at address \<open>17\<close>.
\<close>

definition instance_16 :: clap_plugin where
  "instance_16 =
     \<lparr>desc = s_descriptor,
      plugin_data = 17,
      init = Fn_plugin_init,
      destroy = Fn_plugin_destroy,
      activate = Fn_plugin_activate,
      deactivate = Fn_plugin_deactivate,
      start_processing = Fn_plugin_start_processing,
      stop_processing = Fn_plugin_stop_processing,
      reset = Fn_plugin_reset,
      process = Fn_plugin_process,
      get_extension = Fn_plugin_get_extension,
      on_main_thread = Fn_plugin_on_main_thread\<rparr>"

definition created :: "(string \<Rightarrow> mlvalue option) \<Rightarrow> (event list \<Rightarrow> ml_outcome) \<Rightarrow> shim_state" where
  "created nv res =
     (case factory_create_plugin () 7 ''com.dancer.daw-bridge'' (boot nv res) of
        Inl e \<Rightarrow> boot nv res
      | Inr (r, s) \<Rightarrow> s)"

definition initialized :: "(string \<Rightarrow> mlvalue option) \<Rightarrow> (event list \<Rightarrow> ml_outcome) \<Rightarrow> shim_state" where
  "initialized nv res =
     (case plugin_init 16 (created nv res) of
        Inl e \<Rightarrow> created nv res
      | Inr (r, s) \<Rightarrow> s)"

section \<open>Properties\<close>

lemma strcmp_eq_0_iff: "strcmp a b = 0 \<longleftrightarrow> a = b"
  by (induction a b rule: strcmp.induct) auto


subsection \<open>Words\<close>

lemma uint_bound32: "uint (x :: 32 word) < 4294967296"
  using uint_lt2p [of x] by simp

lemma uint_ucast_32_64: "uint (ucast (x :: 32 word) :: 64 word) = uint x"
  by (simp add: unsigned_ucast_eq take_bit_int_eq_self uint_bound32 [THEN less_trans])

lemma uint_Val_int_word: "uint (push_bit 1 (ucast (x :: 32 word)) + 1 :: 64 word) = 2 * uint x + 1"
proof -
  have b: "uint x < 4294967296" by (rule uint_bound32)
  have "uint (2 * ucast x + 1 :: 64 word) = (2 * uint (ucast x :: 64 word) + 1) mod 2 ^ 64"
    by (simp add: uint_word_ariths mod_simps)
  also have "\<dots> = 2 * uint x + 1"
    using b by (simp add: uint_ucast_32_64)
  finally show ?thesis by (simp add: push_bit_eq_mult mult.commute)
qed

lemma sint_Val_int_word: "sint (push_bit 1 (ucast (x :: 32 word)) + 1 :: 64 word) = 2 * uint x + 1"
proof -
  have b: "uint x < 4294967296" by (rule uint_bound32)
  have "sint (push_bit 1 (ucast x) + 1 :: 64 word) = signed_take_bit 63 (2 * uint x + 1)"
    by (simp only: sint_uint uint_Val_int_word) simp
  also have "\<dots> = 2 * uint x + 1"
    using b by (intro signed_take_bit_int_eq_self) simp_all
  finally show ?thesis .
qed

text \<open>The OCaml side reads back the very number the shim tagged: no bit of a \<^verbatim>\<open>uint32_t\<close> is lost.\<close>

lemma Int_val_Val_int: "Int_val (Val_int x) = Some (uint x)"
proof -
  have odd: "bit (push_bit 1 (ucast x) + 1 :: 64 word) 0"
    by (simp add: bit_0 push_bit_eq_mult)
  have "sint (signed_drop_bit 1 (push_bit 1 (ucast x) + 1 :: 64 word)) = uint x"
    by (simp only: sint_signed_drop_bit_eq sint_Val_int_word) (simp add: drop_bit_eq_div)
  with odd show ?thesis
    by (simp only: Val_int_def Int_val.simps if_True)
qed

subsection \<open>What each bridging function does on a live instance\<close>

text \<open>
  An instance is live when its \<^verbatim>\<open>clap_plugin_t\<close> and the \<^verbatim>\<open>daw_bridge_state_t\<close>
  behind \<^verbatim>\<open>plugin_data\<close> are both allocated. On a live instance the effect of each
  bridging function is the following.
\<close>

lemma plugin_init_live:
  assumes "plugins s p = Some pl" and "states s (plugin_data pl) = Some d"
  shows "plugin_init p s =
           (case caml_named_value_cached (ocaml_init s) ''daw_bridge_init'' s of
              None \<Rightarrow> Inr (False, s\<lparr>ocaml_init := None\<rparr>)
            | Some f \<Rightarrow>
                (case ml_result s (trace s @ [Callback f [Val_unit]]) of
                   Returns v \<Rightarrow>
                     Inr (True,
                          s\<lparr>ocaml_init := Some f,
                            states := (states s)(plugin_data pl \<mapsto> d\<lparr>ocaml_plugin := v\<rparr>),
                            trace := trace s @
                              [Callback f [Val_unit], Register_global_root (plugin_data pl)]\<rparr>)
                 | Raises e \<Rightarrow> Inl (Uncaught_exception e)))"
  using assms
  by (simp add: plugin_init_def Let_def caml_callback_def caml_callbackN_def
      caml_register_global_root_def split: option.splits ml_outcome.splits)

lemma plugin_destroy_live:
  assumes "plugins s p = Some pl" and "states s (plugin_data pl) = Some d"
  shows "plugin_destroy p s =
           (case caml_named_value_cached (ocaml_destroy s) ''daw_bridge_destroy'' s of
              None \<Rightarrow>
                Inr ((), s\<lparr>ocaml_destroy := None,
                           states := (states s)(plugin_data pl := None),
                           plugins := (plugins s)(p := None),
                           trace := trace s @ [Free (plugin_data pl), Free p]\<rparr>)
            | Some f \<Rightarrow>
                if ocaml_plugin d = Val_unit
                then Inr ((), s\<lparr>ocaml_destroy := Some f,
                                states := (states s)(plugin_data pl := None),
                                plugins := (plugins s)(p := None),
                                trace := trace s @ [Free (plugin_data pl), Free p]\<rparr>)
                else
                  (case ml_result s (trace s @ [Callback f [ocaml_plugin d]]) of
                     Returns v \<Rightarrow>
                       Inr ((), s\<lparr>ocaml_destroy := Some f,
                                  states := (states s)(plugin_data pl := None),
                                  plugins := (plugins s)(p := None),
                                  trace := trace s @
                                    [Callback f [ocaml_plugin d], Remove_global_root (plugin_data pl),
                                     Free (plugin_data pl), Free p]\<rparr>)
                   | Raises e \<Rightarrow> Inl (Uncaught_exception e)))"
  using assms
  by (simp add: plugin_destroy_def Let_def caml_callback_def caml_callbackN_def
      caml_remove_global_root_def free_state_def free_plugin_def
      split: option.splits ml_outcome.splits)

lemma plugin_activate_live:
  assumes "plugins s p = Some pl" and "states s (plugin_data pl) = Some d"
  shows "plugin_activate p sample_rate min_frames max_frames s =
           (case caml_named_value_cached (ocaml_activate s) ''daw_bridge_activate'' s of
              None \<Rightarrow> Inr (False, s\<lparr>ocaml_activate := None\<rparr>)
            | Some f \<Rightarrow>
                (case ml_result s (trace s @
                        [Callback f [ocaml_plugin d, Boxed_double sample_rate, Val_int max_frames]]) of
                   Returns v \<Rightarrow>
                     Inr (True,
                          s\<lparr>ocaml_activate := Some f,
                            trace := trace s @
                              [Callback f [ocaml_plugin d, Boxed_double sample_rate, Val_int max_frames]]\<rparr>)
                 | Raises e \<Rightarrow> Inl (Uncaught_exception e)))"
  using assms
  by (simp add: plugin_activate_def Let_def caml_callbackN_def caml_copy_double_def
      split: option.splits ml_outcome.splits)

lemma plugin_deactivate_live:
  assumes "plugins s p = Some pl" and "states s (plugin_data pl) = Some d"
  shows "plugin_deactivate p s =
           (case caml_named_value_cached (ocaml_deactivate s) ''daw_bridge_deactivate'' s of
              None \<Rightarrow> Inr ((), s\<lparr>ocaml_deactivate := None\<rparr>)
            | Some f \<Rightarrow>
                (case ml_result s (trace s @ [Callback f [ocaml_plugin d]]) of
                   Returns v \<Rightarrow>
                     Inr ((), s\<lparr>ocaml_deactivate := Some f,
                                trace := trace s @ [Callback f [ocaml_plugin d]]\<rparr>)
                 | Raises e \<Rightarrow> Inl (Uncaught_exception e)))"
  using assms
  by (simp add: plugin_deactivate_def Let_def caml_callback_def caml_callbackN_def
      split: option.splits ml_outcome.splits)

lemma plugin_process_live:
  assumes "plugins s p = Some pl" and "states s (plugin_data pl) = Some d"
  shows "plugin_process p blk s =
           (case caml_named_value_cached (ocaml_process s) ''daw_bridge_process'' s of
              None \<Rightarrow> Inr (0, s\<lparr>ocaml_process := None\<rparr>)
            | Some f \<Rightarrow>
                (case ml_result s (trace s @ [Callback f [ocaml_plugin d]]) of
                   Returns v \<Rightarrow>
                     Inr (0, s\<lparr>ocaml_process := Some f,
                               trace := trace s @ [Callback f [ocaml_plugin d]]\<rparr>)
                 | Raises e \<Rightarrow> Inl (Uncaught_exception e)))"
  using assms
  by (simp add: plugin_process_def Let_def caml_callback_def caml_callbackN_def
      split: option.splits ml_outcome.splits)


text \<open>An unresolved entry point leaves its cache as it was, at \<^verbatim>\<open>NULL\<close>.\<close>

lemma unresolved_cache:
  "caml_named_value_cached c nm s = None \<Longrightarrow> c = None"
  by (simp add: caml_named_value_cached_def split: option.splits)

subsection \<open>The factory\<close>

lemma factory_create_plugin_mismatch:
  "pid \<noteq> desc_id s_descriptor \<Longrightarrow> factory_create_plugin fac h pid s = Inr (None, s)"
  by (simp add: factory_create_plugin_def strcmp_eq_0_iff)

lemma factory_create_plugin_match:
  "\<exists>pl s'. factory_create_plugin fac h (desc_id s_descriptor) s = Inr (Some (next_addr s), s')
      \<and> plugins s' = (plugins s)(next_addr s \<mapsto> pl)
      \<and> desc pl = s_descriptor
      \<and> plugin_data pl = Suc (next_addr s)
      \<and> states s' = (states s)(Suc (next_addr s) \<mapsto> \<lparr>ocaml_plugin = Val_unit, host = h\<rparr>)
      \<and> trace s' = trace s @ [Calloc (next_addr s), Calloc (Suc (next_addr s))]
      \<and> next_addr s' = Suc (Suc (next_addr s))
      \<and> named_values s' = named_values s \<and> ml_result s' = ml_result s
      \<and> ocaml_init s' = ocaml_init s \<and> ocaml_destroy s' = ocaml_destroy s
      \<and> ocaml_activate s' = ocaml_activate s \<and> ocaml_deactivate s' = ocaml_deactivate s
      \<and> ocaml_process s' = ocaml_process s"
  apply (simp add: factory_create_plugin_def strcmp_eq_0_iff calloc_def)
  apply (intro exI conjI)
    apply (rule refl)
   apply simp_all
  done

subsection \<open>The allocator's invariant\<close>

lemma heap_inv_boot: "heap_inv (boot nv res)"
  by (simp add: heap_inv_def boot_def)

lemma heap_inv_create:
  assumes "heap_inv s" and "factory_create_plugin fac h pid s = Inr (r, s')"
  shows "heap_inv s'"
proof (cases "pid = desc_id s_descriptor")
  case False
  with assms show ?thesis
    by (simp add: factory_create_plugin_mismatch)
next
  case True
  with assms show ?thesis
    by (fastforce simp: factory_create_plugin_def strcmp_eq_0_iff calloc_def heap_inv_def
        less_Suc_eq split: if_splits)
qed

lemma heap_inv_init:
  assumes "heap_inv s" and "plugin_init p s = Inr (r, s')"
  shows "heap_inv s'"
  using assms
  by (fastforce simp: plugin_init_def Let_def caml_callback_def caml_callbackN_def
      caml_register_global_root_def heap_inv_def
      split: option.splits if_splits ml_outcome.splits)

lemma heap_inv_destroy:
  assumes "heap_inv s" and "plugin_destroy p s = Inr (r, s')"
  shows "heap_inv s'"
proof -
  from assms(2) obtain pl where pl: "plugins s p = Some pl"
    by (cases "plugins s p") (simp_all add: plugin_destroy_def)
  from assms(2) pl obtain d where d: "states s (plugin_data pl) = Some d"
    by (cases "states s (plugin_data pl)")
      (simp_all add: plugin_destroy_def Let_def free_state_def caml_callback_def caml_callbackN_def
        caml_remove_global_root_def split: option.splits if_splits ml_outcome.splits)
  from assms(1) pl have lt: "plugin_data pl < next_addr s" and ltp: "p < next_addr s"
    by (auto simp: heap_inv_def not_le [symmetric])
  from assms(2) assms(1) lt ltp show ?thesis
    by (auto simp: plugin_destroy_live [OF pl d] heap_inv_def
        split: option.splits if_splits ml_outcome.splits)
qed

lemma heap_inv_activate:
  assumes "heap_inv s" and "plugin_activate p sr minf maxf s = Inr (r, s')"
  shows "heap_inv s'"
  using assms
  by (fastforce simp: plugin_activate_def Let_def caml_callbackN_def heap_inv_def
      split: option.splits if_splits ml_outcome.splits)

lemma heap_inv_deactivate:
  assumes "heap_inv s" and "plugin_deactivate p s = Inr (r, s')"
  shows "heap_inv s'"
  using assms
  by (fastforce simp: plugin_deactivate_def Let_def caml_callback_def caml_callbackN_def heap_inv_def
      split: option.splits if_splits ml_outcome.splits)

lemma heap_inv_process:
  assumes "heap_inv s" and "plugin_process p blk s = Inr (r, s')"
  shows "heap_inv s'"
  using assms
  by (fastforce simp: plugin_process_def Let_def caml_callback_def caml_callbackN_def heap_inv_def
      split: option.splits if_splits ml_outcome.splits)

lemma registrations_fresh:
  assumes "heap_inv s" and "next_addr s \<le> a"
  shows "registrations a (trace s) = 0" and "removals a (trace s) = 0"
proof -
  have "Register_global_root a \<notin> set (trace s)" "Remove_global_root a \<notin> set (trace s)"
    using assms by (fastforce simp: heap_inv_def)+
  then show "registrations a (trace s) = 0" and "removals a (trace s) = 0"
    by (simp_all add: registrations_def removals_def count_list_0_iff)
qed

subsection \<open>The concrete states\<close>

lemma created_eq:
  "factory_create_plugin () 7 ''com.dancer.daw-bridge'' (boot nv res) = Inr (Some 16, created nv res)"
  by (simp add: created_def factory_create_plugin_def s_descriptor_def calloc_def boot_def)

lemma created_live:
  "plugins (created nv res) 16 = Some instance_16"
  "states (created nv res) 17 = Some \<lparr>ocaml_plugin = Val_unit, host = 7\<rparr>"
  "trace (created nv res) = [Calloc 16, Calloc 17]"
  "named_values (created nv res) = nv"
  "ml_result (created nv res) = res"
  "ocaml_init (created nv res) = None" "ocaml_destroy (created nv res) = None"
  "ocaml_activate (created nv res) = None" "ocaml_deactivate (created nv res) = None"
  "ocaml_process (created nv res) = None"
  by (simp_all add: created_def factory_create_plugin_def instance_16_def calloc_def boot_def
      s_descriptor_def)

lemma plugin_data_instance_16: "plugin_data instance_16 = 17"
  by (simp add: instance_16_def)

lemma created_state_live:
  "states (created nv res) (plugin_data instance_16) = Some \<lparr>ocaml_plugin = Val_unit, host = 7\<rparr>"
  by (simp only: plugin_data_instance_16 created_live)

lemma init_call_returns:
  "fresh_handles [Calloc 16, Calloc 17, Callback (Word 0x100) [Val_unit]] = Returns (Word 0x2018)"
  "failing_process [Calloc 16, Calloc 17, Callback (Word 0x100) [Val_unit]] = Returns (Word 0x2018)"
  by (simp_all add: fresh_handles_def failing_process_def)

lemma initialized_explicit:
  assumes "res [Calloc 16, Calloc 17, Callback (Word 0x100) [Val_unit]] = Returns v"
  shows "plugin_init 16 (created full_bridge res) =
     Inr (True,
          (created full_bridge res)\<lparr>ocaml_init := Some (Word 0x100),
             states := (states (created full_bridge res))(17 \<mapsto> \<lparr>ocaml_plugin = v, host = 7\<rparr>),
             trace := [Calloc 16, Calloc 17, Callback (Word 0x100) [Val_unit], Register_global_root 17]\<rparr>)"
  using assms
  by (simp add: plugin_init_live [OF created_live(1) created_state_live]
      caml_named_value_cached_def created_live full_bridge_def plugin_data_instance_16)

lemma initialized_eq:
  assumes "res [Calloc 16, Calloc 17, Callback (Word 0x100) [Val_unit]] = Returns v"
  shows "plugin_init 16 (created full_bridge res) = Inr (True, initialized full_bridge res)"
  by (simp add: initialized_def initialized_explicit [where res = res and v = v, OF assms])

lemma initialized_live:
  assumes "res [Calloc 16, Calloc 17, Callback (Word 0x100) [Val_unit]] = Returns v"
  shows "plugins (initialized full_bridge res) 16 = Some instance_16"
    and "states (initialized full_bridge res) 17 = Some \<lparr>ocaml_plugin = v, host = 7\<rparr>"
    and "trace (initialized full_bridge res) =
           [Calloc 16, Calloc 17, Callback (Word 0x100) [Val_unit], Register_global_root 17]"
    and "named_values (initialized full_bridge res) = full_bridge"
    and "ml_result (initialized full_bridge res) = res"
    and "ocaml_destroy (initialized full_bridge res) = None"
    and "ocaml_activate (initialized full_bridge res) = None"
    and "ocaml_deactivate (initialized full_bridge res) = None"
    and "ocaml_process (initialized full_bridge res) = None"
  by (simp_all add: initialized_def initialized_explicit [where res = res and v = v, OF assms] created_live)

lemmas fresh_live = initialized_live [where res = fresh_handles, OF init_call_returns(1)]

lemmas failing_live = initialized_live [where res = failing_process, OF init_call_returns(2)]

lemma initialized_state_live:
  assumes "res [Calloc 16, Calloc 17, Callback (Word 0x100) [Val_unit]] = Returns v"
  shows "states (initialized full_bridge res) (plugin_data instance_16)
           = Some \<lparr>ocaml_plugin = v, host = 7\<rparr>"
  by (simp only: plugin_data_instance_16 initialized_live [where res = res and v = v, OF assms])

subsection \<open>Registry, factory lookup and the inert callbacks\<close>

text \<open>
  Claim C8. The plugin count is 1, the descriptor at index 0 is the one configured
  descriptor, whose identity is \<^verbatim>\<open>com.dancer.daw-bridge\<close>, and the descriptor at an
  index is none exactly when the index is not 0.
\<close>

theorem factory_single_descriptor:
  "factory_get_plugin_count fac = 1
   \<and> factory_get_plugin_descriptor fac 0 = Some s_descriptor
   \<and> desc_id s_descriptor = ''com.dancer.daw-bridge''
   \<and> (factory_get_plugin_descriptor fac index = None) = (index \<noteq> 0)"
  by (simp add: factory_get_plugin_count_def factory_get_plugin_descriptor_def s_descriptor_def)

text \<open>
  Claim C9. \<^verbatim>\<open>get_factory\<close> returns the plugin factory for the identifier
  \<^verbatim>\<open>clap.plugin-factory\<close>, and it returns NULL exactly for every other identifier.
\<close>

theorem entry_get_factory_one_identifier:
  "entry_get_factory ''clap.plugin-factory'' = Some s_factory
   \<and> (entry_get_factory factory_id = None) = (factory_id \<noteq> ''clap.plugin-factory'')"
  by (simp add: entry_get_factory_def strcmp_eq_0_iff)

text \<open>
  Claim C10. For every plugin pointer and every extension identifier
  \<^verbatim>\<open>get_extension\<close> returns NULL; \<^verbatim>\<open>reset\<close> and \<^verbatim>\<open>on_main_thread\<close> return with
  the whole program state as it was, the trace included, so no bridge call is made.
\<close>

theorem extension_reset_main_thread_inert:
  "plugin_get_extension p ext_id s = Inr (None, s)
   \<and> plugin_reset p s = Inr ((), s)
   \<and> plugin_on_main_thread p s = Inr ((), s)"
  by (simp add: plugin_get_extension_def plugin_reset_def plugin_on_main_thread_def)

subsection \<open>Creation\<close>

text \<open>
  Claim C5. For an identity string other than the descriptor's, \<^verbatim>\<open>create_plugin\<close>
  returns NULL and leaves the whole state as it was: nothing is allocated. For the
  descriptor's identity it returns a new instance: a plugin object at an address where
  nothing lived before, pointing to the descriptor and to a new state block that holds
  the sentinel \<^verbatim>\<open>Val_unit\<close> as its handle and the host pointer; the only actions
  are the two allocations, so no call into the runtime and no root registration has
  happened for the instance.
\<close>

theorem factory_create_plugin_identity:
  "(pid \<noteq> desc_id s_descriptor \<longrightarrow> factory_create_plugin fac h pid s = Inr (None, s))
   \<and> (pid = desc_id s_descriptor \<longrightarrow>
        (\<exists>pl s'. factory_create_plugin fac h pid s = Inr (Some (next_addr s), s')
           \<and> plugins s' = (plugins s)(next_addr s \<mapsto> pl)
           \<and> desc pl = s_descriptor
           \<and> plugin_data pl = Suc (next_addr s)
           \<and> states s' = (states s)(plugin_data pl \<mapsto> \<lparr>ocaml_plugin = Val_unit, host = h\<rparr>)
           \<and> trace s' = trace s @ [Calloc (next_addr s), Calloc (plugin_data pl)]
           \<and> (heap_inv s \<longrightarrow>
                 plugins s (next_addr s) = None \<and> states s (plugin_data pl) = None
                 \<and> registrations (plugin_data pl) (trace s') = 0
                 \<and> heap_inv s')))"
proof (intro conjI impI)
  assume "pid \<noteq> desc_id s_descriptor"
  then show "factory_create_plugin fac h pid s = Inr (None, s)"
    by (rule factory_create_plugin_mismatch)
next
  assume pid: "pid = desc_id s_descriptor"
  from factory_create_plugin_match [of fac h s] obtain pl s' where
    run: "factory_create_plugin fac h (desc_id s_descriptor) s = Inr (Some (next_addr s), s')"
    and pl: "plugins s' = (plugins s)(next_addr s \<mapsto> pl)" "desc pl = s_descriptor"
      "plugin_data pl = Suc (next_addr s)"
    and st: "states s' = (states s)(Suc (next_addr s) \<mapsto> \<lparr>ocaml_plugin = Val_unit, host = h\<rparr>)"
    and tr: "trace s' = trace s @ [Calloc (next_addr s), Calloc (Suc (next_addr s))]"
    by blast
  have inv: "plugins s (next_addr s) = None \<and> states s (plugin_data pl) = None
             \<and> registrations (plugin_data pl) (trace s') = 0 \<and> heap_inv s'" if "heap_inv s"
  proof -
    from that have "plugins s (next_addr s) = None" "states s (Suc (next_addr s)) = None"
      by (simp_all add: heap_inv_def)
    moreover from registrations_fresh(1) [OF that, of "Suc (next_addr s)"]
    have "registrations (Suc (next_addr s)) (trace s') = 0"
      by (simp add: tr registrations_def)
    moreover from that run have "heap_inv s'"
      by (rule heap_inv_create)
    ultimately show ?thesis by (simp add: pl)
  qed
  from run pl st tr inv
  show "\<exists>pl s'. factory_create_plugin fac h pid s = Inr (Some (next_addr s), s')
           \<and> plugins s' = (plugins s)(next_addr s \<mapsto> pl)
           \<and> desc pl = s_descriptor
           \<and> plugin_data pl = Suc (next_addr s)
           \<and> states s' = (states s)(plugin_data pl \<mapsto> \<lparr>ocaml_plugin = Val_unit, host = h\<rparr>)
           \<and> trace s' = trace s @ [Calloc (next_addr s), Calloc (plugin_data pl)]
           \<and> (heap_inv s \<longrightarrow>
                 plugins s (next_addr s) = None \<and> states s (plugin_data pl) = None
                 \<and> registrations (plugin_data pl) (trace s') = 0
                 \<and> heap_inv s')"
    unfolding pid by (intro exI [of _ pl] exI [of _ s']) simp
qed

theorem factory_create_plugin_identity_witness:
  "''com.example.unknown'' \<noteq> desc_id s_descriptor
   \<and> ''com.dancer.daw-bridge'' = desc_id s_descriptor
   \<and> heap_inv (boot full_bridge fresh_handles)
   \<and> factory_create_plugin () 7 ''com.example.unknown'' (boot full_bridge fresh_handles)
       = Inr (None, boot full_bridge fresh_handles)
   \<and> (\<exists>s'. factory_create_plugin () 7 ''com.dancer.daw-bridge'' (boot full_bridge fresh_handles)
              = Inr (Some 16, s')
        \<and> states s' 17 = Some \<lparr>ocaml_plugin = Val_unit, host = 7\<rparr>
        \<and> trace s' = [Calloc 16, Calloc 17]
        \<and> registrations 17 (trace s') = 0)"
proof -
  have ne: "''com.example.unknown'' \<noteq> desc_id s_descriptor"
    and eq: "''com.dancer.daw-bridge'' = desc_id s_descriptor"
    by (simp_all add: s_descriptor_def)
  have inv: "heap_inv (boot full_bridge fresh_handles)"
    by (rule heap_inv_boot)
  have na: "next_addr (boot full_bridge fresh_handles) = 16" "trace (boot full_bridge fresh_handles) = []"
    by (simp_all add: boot_def)
  from factory_create_plugin_identity
    [of "''com.example.unknown''" "()" 7 "boot full_bridge fresh_handles"] ne
  have a: "factory_create_plugin () 7 ''com.example.unknown'' (boot full_bridge fresh_handles)
             = Inr (None, boot full_bridge fresh_handles)"
    by blast
  from factory_create_plugin_identity
    [of "''com.dancer.daw-bridge''" "()" 7 "boot full_bridge fresh_handles"] eq inv
  have b: "\<exists>s'. factory_create_plugin () 7 ''com.dancer.daw-bridge'' (boot full_bridge fresh_handles)
              = Inr (Some 16, s')
        \<and> states s' 17 = Some \<lparr>ocaml_plugin = Val_unit, host = 7\<rparr>
        \<and> trace s' = [Calloc 16, Calloc 17]
        \<and> registrations 17 (trace s') = 0"
    by (auto simp: na registrations_def)
  from ne eq inv a b show ?thesis by blast
qed


subsection \<open>Process\<close>

text \<open>
  Claim C6, as the specification has it: \<^verbatim>\<open>process\<close> always returns 0 to the host
  and swallows any error of the runtime. It fails on the run create, init, process
  with a runtime whose \<^verbatim>\<open>daw_bridge_process\<close> raises an exception: \<^verbatim>\<open>init\<close> succeeds,
  and \<^verbatim>\<open>process\<close> does not return 0, since the exception leaves \<^verbatim>\<open>caml_callback\<close>
  and the function with it.
\<close>

theorem process_exception_escapes:
  "outcome
     (then_do
        (factory_create_plugin () 7 ''com.dancer.daw-bridge'' (boot full_bridge failing_process))
        (plugin_init 16))
     = Inr (True, [Calloc 16, Calloc 17, Callback (Word 0x100) [Val_unit], Register_global_root 17])
   \<and> then_do
        (then_do
           (factory_create_plugin () 7 ''com.dancer.daw-bridge'' (boot full_bridge failing_process))
           (plugin_init 16))
        (plugin_process 16 ''block'')
     = Inl (Uncaught_exception (Word 0x3000))"
  by (simp add: then_do_def outcome_def created_eq
      initialized_eq [where res = failing_process, OF init_call_returns(2)]
      plugin_process_live [OF failing_live(1)
        initialized_state_live [where res = failing_process, OF init_call_returns(2)]]
      caml_named_value_cached_def failing_live full_bridge_def failing_process_def)

text \<open>
  Claim C6, as the code has it. On a live instance, whatever its handle and its
  history, \<^verbatim>\<open>process\<close> returns 0 (\<^verbatim>\<open>CLAP_PROCESS_CONTINUE\<close>) whenever its call to
  \<^verbatim>\<open>daw_bridge_process\<close> returns, and when that entry point does not resolve. The
  block argument has no influence: any other block, of any type, gives the same
  result and state. The call appends at most one event to the trace, a callback of
  the closure that \<^verbatim>\<open>daw_bridge_process\<close> resolves to. The value the runtime
  returns from that callback is dropped: with any other runtime \<open>res\<close> whose call
  returns, the result and the state are the same. The heap is left as it was.
\<close>

theorem plugin_process_continue_when_call_returns:
  assumes "plugins s p = Some pl" and "states s (plugin_data pl) = Some d"
    and "call_returns s (caml_named_value_cached (ocaml_process s) ''daw_bridge_process'' s)
           [ocaml_plugin d]"
  shows "\<exists>s'. plugin_process p blk s = Inr (0, s')
           \<and> plugin_process p other_blk s = Inr (0, s')
           \<and> (\<forall>res. call_returns (s\<lparr>ml_result := res\<rparr>)
                       (caml_named_value_cached (ocaml_process s) ''daw_bridge_process'' s)
                       [ocaml_plugin d]
                 \<longrightarrow> plugin_process p blk (s\<lparr>ml_result := res\<rparr>) = Inr (0, s'\<lparr>ml_result := res\<rparr>))
           \<and> (\<exists>evs. trace s' = trace s @ evs
                 \<and> (evs = []
                    \<or> (\<exists>f args. evs = [Callback f args]
                          \<and> caml_named_value_cached (ocaml_process s) ''daw_bridge_process'' s = Some f)))
           \<and> plugins s' = plugins s \<and> states s' = states s"
proof -
  have live': "plugins (s\<lparr>ml_result := res\<rparr>) p = Some pl"
    "states (s\<lparr>ml_result := res\<rparr>) (plugin_data pl) = Some d" for res
    using assms by simp_all
  have same: "caml_named_value_cached c ''daw_bridge_process'' (s\<lparr>ml_result := res\<rparr>)
              = caml_named_value_cached c ''daw_bridge_process'' s" for c res
    by (cases c) (simp_all add: caml_named_value_cached_def)
  show ?thesis
  proof (cases "caml_named_value_cached (ocaml_process s) ''daw_bridge_process'' s")
    case None
    then show ?thesis
      by (simp add: plugin_process_live [OF assms(1,2)] plugin_process_live [OF live'] same)
  next
    case (Some f)
    with assms(3) obtain v where v: "ml_result s (trace s @ [Callback f [ocaml_plugin d]]) = Returns v"
      by (auto simp: call_returns_def split: ml_outcome.splits)
    have other: "plugin_process p blk (s\<lparr>ml_result := res\<rparr>)
                   = Inr (0, s\<lparr>ocaml_process := Some f,
                              trace := trace s @ [Callback f [ocaml_plugin d]],
                              ml_result := res\<rparr>)"
      if "call_returns (s\<lparr>ml_result := res\<rparr>) (Some f) [ocaml_plugin d]" for res
      using that Some
      by (auto simp: plugin_process_live [OF live'] same call_returns_def split: ml_outcome.splits)
    from Some v other show ?thesis
      by (simp add: plugin_process_live [OF assms(1,2)])
  qed
qed

theorem plugin_process_continue_when_call_returns_witness:
  "plugins (initialized full_bridge fresh_handles) 16 = Some instance_16
   \<and> states (initialized full_bridge fresh_handles) (plugin_data instance_16)
        = Some \<lparr>ocaml_plugin = Word 0x2018, host = 7\<rparr>
   \<and> call_returns (initialized full_bridge fresh_handles)
        (caml_named_value_cached (ocaml_process (initialized full_bridge fresh_handles))
           ''daw_bridge_process'' (initialized full_bridge fresh_handles))
        [ocaml_plugin \<lparr>ocaml_plugin = Word 0x2018, host = 7\<rparr>]
   \<and> call_returns ((initialized full_bridge fresh_handles)\<lparr>ml_result := (\<lambda>tr. Returns Val_unit)\<rparr>)
        (Some (Word 0x120)) [Word 0x2018]
   \<and> (\<exists>s'. plugin_process 16 ''block A'' (initialized full_bridge fresh_handles) = Inr (0, s')
          \<and> plugin_process 16 ''block B'' (initialized full_bridge fresh_handles) = Inr (0, s')
          \<and> plugin_process 16 ''block A''
               ((initialized full_bridge fresh_handles)\<lparr>ml_result := (\<lambda>tr. Returns Val_unit)\<rparr>)
               = Inr (0, s'\<lparr>ml_result := (\<lambda>tr. Returns Val_unit)\<rparr>))"
proof -
  have p: "plugins (initialized full_bridge fresh_handles) 16 = Some instance_16"
    by (rule fresh_live)
  have st: "states (initialized full_bridge fresh_handles) (plugin_data instance_16)
        = Some \<lparr>ocaml_plugin = Word 0x2018, host = 7\<rparr>"
    by (rule initialized_state_live [where res = fresh_handles, OF init_call_returns(1)])
  have r: "caml_named_value_cached (ocaml_process (initialized full_bridge fresh_handles))
             ''daw_bridge_process'' (initialized full_bridge fresh_handles) = Some (Word 0x120)"
    by (simp add: caml_named_value_cached_def fresh_live full_bridge_def)
  have c: "call_returns (initialized full_bridge fresh_handles)
        (caml_named_value_cached (ocaml_process (initialized full_bridge fresh_handles))
           ''daw_bridge_process'' (initialized full_bridge fresh_handles))
        [ocaml_plugin \<lparr>ocaml_plugin = Word 0x2018, host = 7\<rparr>]"
    unfolding r by (simp add: call_returns_def fresh_live fresh_handles_def)
  have c': "call_returns ((initialized full_bridge fresh_handles)\<lparr>ml_result := (\<lambda>tr. Returns Val_unit)\<rparr>)
        (Some (Word 0x120)) [Word 0x2018]"
    by (simp add: call_returns_def)
  from plugin_process_continue_when_call_returns [OF p st c, of "''block A''" "''block B''"]
  have "\<exists>s'. plugin_process 16 ''block A'' (initialized full_bridge fresh_handles) = Inr (0, s')
          \<and> plugin_process 16 ''block B'' (initialized full_bridge fresh_handles) = Inr (0, s')
          \<and> plugin_process 16 ''block A''
               ((initialized full_bridge fresh_handles)\<lparr>ml_result := (\<lambda>tr. Returns Val_unit)\<rparr>)
               = Inr (0, s'\<lparr>ml_result := (\<lambda>tr. Returns Val_unit)\<rparr>)"
    unfolding r using c' by auto
  with p st c c' show ?thesis
    by (intro conjI)
qed


subsection \<open>Activation\<close>

text \<open>
  Claim C7. On a live instance \<^verbatim>\<open>activate\<close> returns false exactly when
  \<^verbatim>\<open>daw_bridge_activate\<close> does not resolve, and then the whole state, the trace
  included, is as before: no runtime call is made. When the entry point resolves, the
  one action is the callback with the handle, the boxed sample rate and the tagged
  maximum block size, which the runtime reads back as the same number; \<^verbatim>\<open>activate\<close>
  returns true when that call returns, and does not return when it raises. The minimum
  block size has no influence on the result.
\<close>

theorem plugin_activate_forwards_rate_and_max:
  assumes "plugins s p = Some pl" and "states s (plugin_data pl) = Some d"
  shows "((\<exists>s'. plugin_activate p sample_rate min_frames max_frames s = Inr (False, s'))
            \<longleftrightarrow> caml_named_value_cached (ocaml_activate s) ''daw_bridge_activate'' s = None)
         \<and> (caml_named_value_cached (ocaml_activate s) ''daw_bridge_activate'' s = None
              \<longrightarrow> plugin_activate p sample_rate min_frames max_frames s = Inr (False, s))
         \<and> (\<forall>f v. caml_named_value_cached (ocaml_activate s) ''daw_bridge_activate'' s = Some f
                \<and> ml_result s (trace s @
                     [Callback f [ocaml_plugin d, Boxed_double sample_rate, Val_int max_frames]])
                   = Returns v
              \<longrightarrow> plugin_activate p sample_rate min_frames max_frames s =
                    Inr (True,
                         s\<lparr>ocaml_activate := Some f,
                           trace := trace s @
                             [Callback f [ocaml_plugin d, Boxed_double sample_rate, Val_int max_frames]]\<rparr>))
         \<and> (\<forall>f e. caml_named_value_cached (ocaml_activate s) ''daw_bridge_activate'' s = Some f
                \<and> ml_result s (trace s @
                     [Callback f [ocaml_plugin d, Boxed_double sample_rate, Val_int max_frames]])
                   = Raises e
              \<longrightarrow> plugin_activate p sample_rate min_frames max_frames s = Inl (Uncaught_exception e))
         \<and> Int_val (Val_int max_frames) = Some (uint max_frames)
         \<and> plugin_activate p sample_rate other_min_frames max_frames s
             = plugin_activate p sample_rate min_frames max_frames s"
proof (cases "caml_named_value_cached (ocaml_activate s) ''daw_bridge_activate'' s")
  case None
  then have "ocaml_activate s = None"
    by (rule unresolved_cache)
  then have "s\<lparr>ocaml_activate := None\<rparr> = s"
    by simp
  with None show ?thesis
    by (simp add: plugin_activate_live [OF assms] Int_val_Val_int)
next
  case (Some f)
  then show ?thesis
    by (cases "ml_result s (trace s @
                 [Callback f [ocaml_plugin d, Boxed_double sample_rate, Val_int max_frames]])")
      (simp_all add: plugin_activate_live [OF assms] Int_val_Val_int)
qed

theorem plugin_activate_forwards_rate_and_max_witness:
  "plugins (initialized full_bridge fresh_handles) 16 = Some instance_16
   \<and> states (initialized full_bridge fresh_handles) (plugin_data instance_16)
        = Some \<lparr>ocaml_plugin = Word 0x2018, host = 7\<rparr>
   \<and> caml_named_value_cached (ocaml_activate (initialized full_bridge fresh_handles))
        ''daw_bridge_activate'' (initialized full_bridge fresh_handles) = Some (Word 0x110)
   \<and> ml_result (initialized full_bridge fresh_handles)
        (trace (initialized full_bridge fresh_handles) @
           [Callback (Word 0x110) [Word 0x2018, Boxed_double 0x40E7700000000000, Val_int 512]])
        = Returns (Word 0x2028)
   \<and> outcome (plugin_activate 16 0x40E7700000000000 64 512 (initialized full_bridge fresh_handles))
        = Inr (True, trace (initialized full_bridge fresh_handles) @
            [Callback (Word 0x110) [Word 0x2018, Boxed_double 0x40E7700000000000, Val_int 512]])
   \<and> Int_val (Val_int 512) = Some 512
   \<and> plugins (created no_bridge fresh_handles) 16 = Some instance_16
   \<and> states (created no_bridge fresh_handles) (plugin_data instance_16)
        = Some \<lparr>ocaml_plugin = Val_unit, host = 7\<rparr>
   \<and> caml_named_value_cached (ocaml_activate (created no_bridge fresh_handles))
        ''daw_bridge_activate'' (created no_bridge fresh_handles) = None
   \<and> plugin_activate 16 0x40E7700000000000 64 512 (created no_bridge fresh_handles)
        = Inr (False, created no_bridge fresh_handles)"
proof -
  have p: "plugins (initialized full_bridge fresh_handles) 16 = Some instance_16"
    by (rule fresh_live)
  have st: "states (initialized full_bridge fresh_handles) (plugin_data instance_16)
        = Some \<lparr>ocaml_plugin = Word 0x2018, host = 7\<rparr>"
    by (rule initialized_state_live [where res = fresh_handles, OF init_call_returns(1)])
  have r: "caml_named_value_cached (ocaml_activate (initialized full_bridge fresh_handles))
             ''daw_bridge_activate'' (initialized full_bridge fresh_handles) = Some (Word 0x110)"
    by (simp add: caml_named_value_cached_def fresh_live full_bridge_def)
  have v: "ml_result (initialized full_bridge fresh_handles)
        (trace (initialized full_bridge fresh_handles) @
           [Callback (Word 0x110) [Word 0x2018, Boxed_double 0x40E7700000000000, Val_int 512]])
        = Returns (Word 0x2028)"
    by (simp add: fresh_live fresh_handles_def)
  have p': "plugins (created no_bridge fresh_handles) 16 = Some instance_16"
    and st': "states (created no_bridge fresh_handles) (plugin_data instance_16)
               = Some \<lparr>ocaml_plugin = Val_unit, host = 7\<rparr>"
    by (rule created_live, rule created_state_live)
  have r': "caml_named_value_cached (ocaml_activate (created no_bridge fresh_handles))
        ''daw_bridge_activate'' (created no_bridge fresh_handles) = None"
    by (simp add: caml_named_value_cached_def created_live no_bridge_def)
  from plugin_activate_forwards_rate_and_max [OF p st, of "0x40E7700000000000" 64 512 64] r v
  have a: "outcome (plugin_activate 16 0x40E7700000000000 64 512 (initialized full_bridge fresh_handles))
        = Inr (True, trace (initialized full_bridge fresh_handles) @
            [Callback (Word 0x110) [Word 0x2018, Boxed_double 0x40E7700000000000, Val_int 512]])"
    and b: "Int_val (Val_int 512) = Some 512"
    by (simp_all add: outcome_def)
  from plugin_activate_forwards_rate_and_max [OF p' st', of "0x40E7700000000000" 64 512 64] r'
  have c: "plugin_activate 16 0x40E7700000000000 64 512 (created no_bridge fresh_handles)
             = Inr (False, created no_bridge fresh_handles)"
    by blast
  from p st r v a b p' st' r' c show ?thesis
    by (intro conjI)
qed

subsection \<open>Initialisation\<close>

lemma registrations_append:
  "registrations a (xs @ ys) = registrations a xs + registrations a ys"
  "removals a (xs @ ys) = removals a xs + removals a ys"
  by (simp_all add: registrations_def removals_def)

lemma plugin_init_unresolved:
  assumes "plugins s p = Some pl" and "states s (plugin_data pl) = Some d"
    and "caml_named_value_cached (ocaml_init s) ''daw_bridge_init'' s = None"
  shows "plugin_init p s = Inr (False, s)"
proof -
  from assms(3) have "ocaml_init s = None"
    by (rule unresolved_cache)
  then have "s\<lparr>ocaml_init := None\<rparr> = s"
    by simp
  with assms(3) show ?thesis
    by (simp add: plugin_init_live [OF assms(1,2)])
qed

lemma plugin_init_resolved:
  assumes "plugins s p = Some pl" and "states s (plugin_data pl) = Some d"
    and "caml_named_value_cached (ocaml_init s) ''daw_bridge_init'' s = Some f"
    and "ml_result s (trace s @ [Callback f [Val_unit]]) = Returns v"
  shows "\<exists>s'. plugin_init p s = Inr (True, s')
           \<and> states s' = (states s)(plugin_data pl \<mapsto> d\<lparr>ocaml_plugin := v\<rparr>)
           \<and> plugins s' = plugins s
           \<and> trace s' = trace s @ [Callback f [Val_unit], Register_global_root (plugin_data pl)]
           \<and> registrations (plugin_data pl) (trace s') = Suc (registrations (plugin_data pl) (trace s))
           \<and> removals (plugin_data pl) (trace s') = removals (plugin_data pl) (trace s)
           \<and> (\<forall>a. a \<noteq> plugin_data pl \<longrightarrow> registrations a (trace s') = registrations a (trace s))"
  using assms(3,4)
  by (simp add: plugin_init_live [OF assms(1,2)] registrations_append)
    (simp add: registrations_def removals_def)

lemma plugin_init_raises:
  assumes "plugins s p = Some pl" and "states s (plugin_data pl) = Some d"
    and "caml_named_value_cached (ocaml_init s) ''daw_bridge_init'' s = Some f"
    and "ml_result s (trace s @ [Callback f [Val_unit]]) = Raises e"
  shows "plugin_init p s = Inl (Uncaught_exception e)"
  using assms(3,4) by (simp add: plugin_init_live [OF assms(1,2)])

lemma create_then_init:
  assumes inv: "heap_inv s0"
    and res: "caml_named_value_cached (ocaml_init s0) ''daw_bridge_init'' s0 = Some f0"
    and ret: "ml_result s0 (trace s0 @
                [Calloc (next_addr s0), Calloc (Suc (next_addr s0)), Callback f0 [Val_unit]])
              = Returns v"
  shows "\<exists>p0 s1 s2 pl0. factory_create_plugin fac h (desc_id s_descriptor) s0 = Inr (Some p0, s1)
           \<and> plugin_init p0 s1 = Inr (True, s2)
           \<and> plugins s2 p0 = Some pl0
           \<and> states s2 (plugin_data pl0) = Some \<lparr>ocaml_plugin = v, host = h\<rparr>
           \<and> registrations (plugin_data pl0) (trace s2) = 1
           \<and> removals (plugin_data pl0) (trace s2) = 0
           \<and> (\<forall>a. a \<noteq> plugin_data pl0 \<longrightarrow> registrations a (trace s2) = registrations a (trace s0))"
proof -
  from factory_create_plugin_match [of fac h s0] obtain pl s1 where
    run: "factory_create_plugin fac h (desc_id s_descriptor) s0 = Inr (Some (next_addr s0), s1)"
    and pl: "plugins s1 = (plugins s0)(next_addr s0 \<mapsto> pl)" "plugin_data pl = Suc (next_addr s0)"
    and st: "states s1 = (states s0)(Suc (next_addr s0) \<mapsto> \<lparr>ocaml_plugin = Val_unit, host = h\<rparr>)"
    and tr: "trace s1 = trace s0 @ [Calloc (next_addr s0), Calloc (Suc (next_addr s0))]"
    and same: "named_values s1 = named_values s0" "ml_result s1 = ml_result s0"
      "ocaml_init s1 = ocaml_init s0"
    by blast
  have live: "plugins s1 (next_addr s0) = Some pl"
    "states s1 (plugin_data pl) = Some \<lparr>ocaml_plugin = Val_unit, host = h\<rparr>"
    by (simp_all add: pl st)
  have "caml_named_value_cached (ocaml_init s1) ''daw_bridge_init'' s1
          = caml_named_value_cached (ocaml_init s0) ''daw_bridge_init'' s0"
    unfolding caml_named_value_cached_def same by (rule refl)
  with res have res1: "caml_named_value_cached (ocaml_init s1) ''daw_bridge_init'' s1 = Some f0"
    by simp
  have ret1: "ml_result s1 (trace s1 @ [Callback f0 [Val_unit]]) = Returns v"
    using ret by (simp add: same tr)
  from plugin_init_resolved [OF live res1 ret1] obtain s2 where
    init: "plugin_init (next_addr s0) s1 = Inr (True, s2)"
    and st2: "states s2 = (states s1)(plugin_data pl \<mapsto>
                 \<lparr>ocaml_plugin = Val_unit, host = h\<rparr>\<lparr>ocaml_plugin := v\<rparr>)"
    and pl2: "plugins s2 = plugins s1"
    and reg: "registrations (plugin_data pl) (trace s2) = Suc (registrations (plugin_data pl) (trace s1))"
    and rem: "removals (plugin_data pl) (trace s2) = removals (plugin_data pl) (trace s1)"
    and other: "\<forall>a. a \<noteq> plugin_data pl \<longrightarrow> registrations a (trace s2) = registrations a (trace s1)"
    by blast
  have tr1: "registrations a (trace s1) = registrations a (trace s0)"
    "removals a (trace s1) = removals a (trace s0)" for a
    by (simp_all add: tr registrations_def removals_def)
  have fresh: "registrations (plugin_data pl) (trace s0) = 0" "removals (plugin_data pl) (trace s0) = 0"
    using registrations_fresh [OF inv, of "plugin_data pl"] by (simp_all add: pl)
  have "plugins s2 (next_addr s0) = Some pl"
    by (simp add: pl2 live)
  moreover have "states s2 (plugin_data pl) = Some \<lparr>ocaml_plugin = v, host = h\<rparr>"
    by (simp add: st2)
  moreover have "registrations (plugin_data pl) (trace s2) = 1" "removals (plugin_data pl) (trace s2) = 0"
    by (simp_all add: reg rem tr1 fresh)
  moreover have "\<forall>a. a \<noteq> plugin_data pl \<longrightarrow> registrations a (trace s2) = registrations a (trace s0)"
    using other by (simp add: tr1)
  ultimately show ?thesis
    using run init by blast
qed

text \<open>
  Claim C4. On a live instance \<^verbatim>\<open>init\<close> returns false exactly when
  \<^verbatim>\<open>daw_bridge_init\<close> does not resolve, and then nothing has changed. When the entry
  point resolves, \<^verbatim>\<open>init\<close> calls it once with \<^verbatim>\<open>Val_unit\<close>; when that call returns,
  \<^verbatim>\<open>init\<close> returns true after storing the returned value as the instance's handle and
  registering the handle's field as a global root once (when the call raises,
  \<^verbatim>\<open>init\<close> does not return). So in a state that satisfies the allocator's invariant,
  creating an instance and initialising it with success gives an instance whose handle
  field has been registered exactly once and never removed, with the registrations of
  every other address as they were.
\<close>

theorem plugin_init_pins_one_handle:
  "(plugins s p = Some pl \<and> states s (plugin_data pl) = Some d \<longrightarrow>
      ((\<exists>s'. plugin_init p s = Inr (False, s'))
          \<longleftrightarrow> caml_named_value_cached (ocaml_init s) ''daw_bridge_init'' s = None)
      \<and> (caml_named_value_cached (ocaml_init s) ''daw_bridge_init'' s = None
            \<longrightarrow> plugin_init p s = Inr (False, s))
      \<and> (\<forall>f v. caml_named_value_cached (ocaml_init s) ''daw_bridge_init'' s = Some f
              \<and> ml_result s (trace s @ [Callback f [Val_unit]]) = Returns v \<longrightarrow>
            (\<exists>s'. plugin_init p s = Inr (True, s')
               \<and> states s' = (states s)(plugin_data pl \<mapsto> d\<lparr>ocaml_plugin := v\<rparr>)
               \<and> plugins s' = plugins s
               \<and> trace s' = trace s @ [Callback f [Val_unit], Register_global_root (plugin_data pl)]
               \<and> registrations (plugin_data pl) (trace s') = Suc (registrations (plugin_data pl) (trace s))
               \<and> removals (plugin_data pl) (trace s') = removals (plugin_data pl) (trace s)))
      \<and> (\<forall>f e. caml_named_value_cached (ocaml_init s) ''daw_bridge_init'' s = Some f
              \<and> ml_result s (trace s @ [Callback f [Val_unit]]) = Raises e \<longrightarrow>
            plugin_init p s = Inl (Uncaught_exception e)))
   \<and> (heap_inv t \<and> caml_named_value_cached (ocaml_init t) ''daw_bridge_init'' t = Some g
        \<and> ml_result t (trace t @ [Calloc (next_addr t), Calloc (Suc (next_addr t)), Callback g [Val_unit]])
            = Returns w \<longrightarrow>
        (\<exists>p0 s1 s2 pl0. factory_create_plugin fac h (desc_id s_descriptor) t = Inr (Some p0, s1)
           \<and> plugin_init p0 s1 = Inr (True, s2)
           \<and> plugins s2 p0 = Some pl0
           \<and> states s2 (plugin_data pl0) = Some \<lparr>ocaml_plugin = w, host = h\<rparr>
           \<and> registrations (plugin_data pl0) (trace s2) = 1
           \<and> removals (plugin_data pl0) (trace s2) = 0
           \<and> (\<forall>a. a \<noteq> plugin_data pl0 \<longrightarrow> registrations a (trace s2) = registrations a (trace t))))"
proof (intro conjI impI)
  assume live: "plugins s p = Some pl \<and> states s (plugin_data pl) = Some d"
  then have l1: "plugins s p = Some pl" and l2: "states s (plugin_data pl) = Some d"
    by simp_all
  show "(\<exists>s'. plugin_init p s = Inr (False, s'))
          \<longleftrightarrow> caml_named_value_cached (ocaml_init s) ''daw_bridge_init'' s = None"
    by (cases "caml_named_value_cached (ocaml_init s) ''daw_bridge_init'' s")
      (simp_all add: plugin_init_live [OF l1 l2] split: ml_outcome.splits)
  show "plugin_init p s = Inr (False, s)"
    if "caml_named_value_cached (ocaml_init s) ''daw_bridge_init'' s = None"
    using l1 l2 that by (rule plugin_init_unresolved)
  show "\<forall>f v. caml_named_value_cached (ocaml_init s) ''daw_bridge_init'' s = Some f
              \<and> ml_result s (trace s @ [Callback f [Val_unit]]) = Returns v \<longrightarrow>
            (\<exists>s'. plugin_init p s = Inr (True, s')
               \<and> states s' = (states s)(plugin_data pl \<mapsto> d\<lparr>ocaml_plugin := v\<rparr>)
               \<and> plugins s' = plugins s
               \<and> trace s' = trace s @ [Callback f [Val_unit], Register_global_root (plugin_data pl)]
               \<and> registrations (plugin_data pl) (trace s') = Suc (registrations (plugin_data pl) (trace s))
               \<and> removals (plugin_data pl) (trace s') = removals (plugin_data pl) (trace s))"
    using plugin_init_resolved [OF l1 l2] by blast
  show "\<forall>f e. caml_named_value_cached (ocaml_init s) ''daw_bridge_init'' s = Some f
              \<and> ml_result s (trace s @ [Callback f [Val_unit]]) = Raises e \<longrightarrow>
            plugin_init p s = Inl (Uncaught_exception e)"
    using plugin_init_raises [OF l1 l2] by blast
next
  assume "heap_inv t \<and> caml_named_value_cached (ocaml_init t) ''daw_bridge_init'' t = Some g
        \<and> ml_result t (trace t @ [Calloc (next_addr t), Calloc (Suc (next_addr t)), Callback g [Val_unit]])
            = Returns w"
  then have "heap_inv t" "caml_named_value_cached (ocaml_init t) ''daw_bridge_init'' t = Some g"
    "ml_result t (trace t @ [Calloc (next_addr t), Calloc (Suc (next_addr t)), Callback g [Val_unit]])
            = Returns w"
    by simp_all
  then show "\<exists>p0 s1 s2 pl0. factory_create_plugin fac h (desc_id s_descriptor) t = Inr (Some p0, s1)
           \<and> plugin_init p0 s1 = Inr (True, s2)
           \<and> plugins s2 p0 = Some pl0
           \<and> states s2 (plugin_data pl0) = Some \<lparr>ocaml_plugin = w, host = h\<rparr>
           \<and> registrations (plugin_data pl0) (trace s2) = 1
           \<and> removals (plugin_data pl0) (trace s2) = 0
           \<and> (\<forall>a. a \<noteq> plugin_data pl0 \<longrightarrow> registrations a (trace s2) = registrations a (trace t))"
    by (rule create_then_init)
qed

theorem plugin_init_pins_one_handle_witness:
  "plugins (created full_bridge fresh_handles) 16 = Some instance_16
   \<and> states (created full_bridge fresh_handles) (plugin_data instance_16)
        = Some \<lparr>ocaml_plugin = Val_unit, host = 7\<rparr>
   \<and> caml_named_value_cached (ocaml_init (created full_bridge fresh_handles)) ''daw_bridge_init''
        (created full_bridge fresh_handles) = Some (Word 0x100)
   \<and> ml_result (created full_bridge fresh_handles)
        (trace (created full_bridge fresh_handles) @ [Callback (Word 0x100) [Val_unit]])
        = Returns (Word 0x2018)
   \<and> (\<exists>s'. plugin_init 16 (created full_bridge fresh_handles) = Inr (True, s')
          \<and> trace s' = [Calloc 16, Calloc 17, Callback (Word 0x100) [Val_unit], Register_global_root 17])
   \<and> heap_inv (boot full_bridge fresh_handles)
   \<and> caml_named_value_cached (ocaml_init (boot full_bridge fresh_handles)) ''daw_bridge_init''
        (boot full_bridge fresh_handles) = Some (Word 0x100)
   \<and> ml_result (boot full_bridge fresh_handles)
        (trace (boot full_bridge fresh_handles) @
           [Calloc (next_addr (boot full_bridge fresh_handles)),
            Calloc (Suc (next_addr (boot full_bridge fresh_handles))),
            Callback (Word 0x100) [Val_unit]])
        = Returns (Word 0x2018)
   \<and> (\<exists>p0 s1 s2 pl0.
          factory_create_plugin () 7 (desc_id s_descriptor) (boot full_bridge fresh_handles)
            = Inr (Some p0, s1)
          \<and> plugin_init p0 s1 = Inr (True, s2)
          \<and> plugins s2 p0 = Some pl0
          \<and> states s2 (plugin_data pl0) = Some \<lparr>ocaml_plugin = Word 0x2018, host = 7\<rparr>
          \<and> registrations (plugin_data pl0) (trace s2) = 1
          \<and> removals (plugin_data pl0) (trace s2) = 0)
   \<and> plugins (created no_bridge fresh_handles) 16 = Some instance_16
   \<and> states (created no_bridge fresh_handles) (plugin_data instance_16)
        = Some \<lparr>ocaml_plugin = Val_unit, host = 7\<rparr>
   \<and> caml_named_value_cached (ocaml_init (created no_bridge fresh_handles)) ''daw_bridge_init''
        (created no_bridge fresh_handles) = None
   \<and> plugin_init 16 (created no_bridge fresh_handles) = Inr (False, created no_bridge fresh_handles)"
proof -
  have p: "plugins (created full_bridge fresh_handles) 16 = Some instance_16"
    and st: "states (created full_bridge fresh_handles) (plugin_data instance_16)
               = Some \<lparr>ocaml_plugin = Val_unit, host = 7\<rparr>"
    by (rule created_live, rule created_state_live)
  have r: "caml_named_value_cached (ocaml_init (created full_bridge fresh_handles)) ''daw_bridge_init''
             (created full_bridge fresh_handles) = Some (Word 0x100)"
    by (simp add: caml_named_value_cached_def created_live full_bridge_def)
  have v: "ml_result (created full_bridge fresh_handles)
        (trace (created full_bridge fresh_handles) @ [Callback (Word 0x100) [Val_unit]])
        = Returns (Word 0x2018)"
    by (simp add: created_live fresh_handles_def)
  have inv: "heap_inv (boot full_bridge fresh_handles)"
    by (rule heap_inv_boot)
  have rb: "caml_named_value_cached (ocaml_init (boot full_bridge fresh_handles)) ''daw_bridge_init''
        (boot full_bridge fresh_handles) = Some (Word 0x100)"
    by (simp add: caml_named_value_cached_def boot_def full_bridge_def)
  have vb: "ml_result (boot full_bridge fresh_handles)
        (trace (boot full_bridge fresh_handles) @
           [Calloc (next_addr (boot full_bridge fresh_handles)),
            Calloc (Suc (next_addr (boot full_bridge fresh_handles))),
            Callback (Word 0x100) [Val_unit]])
        = Returns (Word 0x2018)"
    by (simp add: boot_def fresh_handles_def)
  have p': "plugins (created no_bridge fresh_handles) 16 = Some instance_16"
    and st': "states (created no_bridge fresh_handles) (plugin_data instance_16)
               = Some \<lparr>ocaml_plugin = Val_unit, host = 7\<rparr>"
    by (rule created_live, rule created_state_live)
  have r': "caml_named_value_cached (ocaml_init (created no_bridge fresh_handles)) ''daw_bridge_init''
        (created no_bridge fresh_handles) = None"
    by (simp add: caml_named_value_cached_def created_live no_bridge_def)
  note full = plugin_init_pins_one_handle
    [where s = "created full_bridge fresh_handles" and p = 16 and pl = instance_16
       and d = "\<lparr>ocaml_plugin = Val_unit, host = 7\<rparr>"
       and t = "boot full_bridge fresh_handles" and g = "Word 0x100" and w = "Word 0x2018"
       and fac = "()" and h = 7]
  note none = plugin_init_pins_one_handle
    [where s = "created no_bridge fresh_handles" and p = 16 and pl = instance_16
       and d = "\<lparr>ocaml_plugin = Val_unit, host = 7\<rparr>"
       and t = "boot full_bridge fresh_handles" and g = "Word 0x100" and w = "Word 0x2018"
       and fac = "()" and h = 7]
  from full p st r v
  have a: "\<exists>s'. plugin_init 16 (created full_bridge fresh_handles) = Inr (True, s')
          \<and> trace s' = [Calloc 16, Calloc 17, Callback (Word 0x100) [Val_unit], Register_global_root 17]"
    by (auto simp: created_live plugin_data_instance_16)
  from full inv rb vb
  have b: "\<exists>p0 s1 s2 pl0.
          factory_create_plugin () 7 (desc_id s_descriptor) (boot full_bridge fresh_handles)
            = Inr (Some p0, s1)
          \<and> plugin_init p0 s1 = Inr (True, s2)
          \<and> plugins s2 p0 = Some pl0
          \<and> states s2 (plugin_data pl0) = Some \<lparr>ocaml_plugin = Word 0x2018, host = 7\<rparr>
          \<and> registrations (plugin_data pl0) (trace s2) = 1
          \<and> removals (plugin_data pl0) (trace s2) = 0"
    by blast
  from none p' st' r'
  have c: "plugin_init 16 (created no_bridge fresh_handles) = Inr (False, created no_bridge fresh_handles)"
    by blast
  from p st r v a inv rb vb b p' st' r' c show ?thesis
    by (intro conjI)
qed


subsection \<open>Destruction\<close>




subsection \<open>Calls with a handle that was never bound\<close>

text \<open>
  Claim C2 at the run in which the host creates an instance and, without
  \<^verbatim>\<open>init\<close>, calls one lifecycle function, all entry points being registered.
  \<^verbatim>\<open>process\<close>, \<^verbatim>\<open>activate\<close> and \<^verbatim>\<open>deactivate\<close> each call their entry point with
  the sentinel \<^verbatim>\<open>Val_unit\<close> as the handle; only \<^verbatim>\<open>destroy\<close>, which compares the
  handle with \<^verbatim>\<open>Val_unit\<close> first, makes no call.
\<close>

theorem unbound_handle_reaches_bridge:
  "outcome
     (then_do (factory_create_plugin () 7 ''com.dancer.daw-bridge'' (boot full_bridge fresh_handles))
        (plugin_process 16 ''block''))
     = Inr (0, [Calloc 16, Calloc 17, Callback (Word 0x120) [Val_unit]])
   \<and> outcome
     (then_do (factory_create_plugin () 7 ''com.dancer.daw-bridge'' (boot full_bridge fresh_handles))
        (plugin_activate 16 0x40E7700000000000 64 512))
     = Inr (True, [Calloc 16, Calloc 17,
                   Callback (Word 0x110) [Val_unit, Boxed_double 0x40E7700000000000, Val_int 512]])
   \<and> outcome
     (then_do (factory_create_plugin () 7 ''com.dancer.daw-bridge'' (boot full_bridge fresh_handles))
        (plugin_deactivate 16))
     = Inr ((), [Calloc 16, Calloc 17, Callback (Word 0x118) [Val_unit]])
   \<and> outcome
     (then_do (factory_create_plugin () 7 ''com.dancer.daw-bridge'' (boot full_bridge fresh_handles))
        (plugin_destroy 16))
     = Inr ((), [Calloc 16, Calloc 17, Free 17, Free 16])"
  by (simp add: then_do_def outcome_def created_eq
      plugin_process_live [OF created_live(1) created_state_live]
      plugin_activate_live [OF created_live(1) created_state_live]
      plugin_deactivate_live [OF created_live(1) created_state_live]
      plugin_destroy_live [OF created_live(1) created_state_live]
      caml_named_value_cached_def created_live full_bridge_def
      plugin_data_instance_16 fresh_handles_def)

subsection \<open>Processing without a Processing state\<close>




end
